theory Spec2Isabelle
  imports Complex_Main "HOL-Library.Word" "HOL-Library.Sublist"
begin

section \<open>Python values\<close>

text \<open>
  The values that travel through the server and the client are the values of
  \<^verbatim>\<open>json.loads\<close> and of the recognizer: \<^verbatim>\<open>None\<close>, booleans, numbers, strings,
  lists and dictionaries with string keys. A dictionary is an association list read with
  \<open>map_of\<close>. A Python \<^verbatim>\<open>str\<close> is the \<open>string\<close> of its UTF-8 bytes: concatenation and
  the tests for emptiness, suffixes and substrings give the same answers on the bytes as
  on the characters; indexing does not, and cuts the bytes into characters first.
\<close>

datatype pyval =
    PNone
  | PBool bool
  | PInt int
  | PFloat real
  | PStr string
  | PList "pyval list"
  | PDict "(string \<times> pyval) list"

datatype py_error =
    JSONDecodeError
  | AttributeError
  | KeyError
  | TypeError
  | ValueError
  | ConnectionClosed
  | DeviceError

text \<open>Truthiness, as \<^verbatim>\<open>if text:\<close> and \<^verbatim>\<open>if not text:\<close> test it.\<close>

fun truthy :: "pyval \<Rightarrow> bool" where
  "truthy PNone = False"
| "truthy (PBool b) = b"
| "truthy (PInt i) = (i \<noteq> 0)"
| "truthy (PFloat r) = (r \<noteq> 0)"
| "truthy (PStr s) = (s \<noteq> [])"
| "truthy (PList xs) = (xs \<noteq> [])"
| "truthy (PDict kvs) = (kvs \<noteq> [])"

text \<open>\<^verbatim>\<open>isinstance(v, dict) and k in v\<close>.\<close>

fun dict_has :: "pyval \<Rightarrow> string \<Rightarrow> bool" where
  "dict_has (PDict kvs) k = (map_of kvs k \<noteq> None)"
| "dict_has _ k = False"

text \<open>\<^verbatim>\<open>v[k]\<close> on a dictionary that is known to hold \<open>k\<close>; \<^verbatim>\<open>KeyError\<close> otherwise.\<close>

fun dict_item :: "pyval \<Rightarrow> string \<Rightarrow> py_error + pyval" where
  "dict_item (PDict kvs) k = (case map_of kvs k of None \<Rightarrow> Inl KeyError | Some v \<Rightarrow> Inr v)"
| "dict_item _ k = Inl TypeError"

section \<open>The server (server.py)\<close>

type_synonym byte = "8 word"

text \<open>
  One entry of \<^verbatim>\<open>self.clients\<close>: the audio received and not yet recognized, and the
  sample rate, which a config message may set to any decoded value.
\<close>

record session =
  audio_buffer :: "byte list"
  sample_rate :: pyval

text \<open>
  The state one connection handler works on: the map of sessions, the results sent over
  this connection so far, and the buffers with which \<^verbatim>\<open>recognize_audio\<close> has been
  called, in order (a trace of the calls; the code keeps no such list).
\<close>

record server =
  clients :: "nat \<rightharpoonup> session"
  sent :: "pyval list"
  dispatched :: "byte list list"

datatype message = Str string | Bytes "byte list"

datatype step = Continue server | Raise py_error server

fun state_of :: "step \<Rightarrow> server" where
  "state_of (Continue s) = s"
| "state_of (Raise e s) = s"

subsection \<open>Sample conversion\<close>

text \<open>
  \<^verbatim>\<open>np.frombuffer(audio_data, dtype=np.int16)\<close> reads two bytes per sample, low byte
  first, and raises \<^verbatim>\<open>ValueError\<close> when the number of bytes is odd.
\<close>

fun int16_samples :: "byte list \<Rightarrow> 16 word list" where
  "int16_samples (lo # hi # bs) = word_cat hi lo # int16_samples bs"
| "int16_samples _ = []"

definition frombuffer_int16 :: "byte list \<Rightarrow> py_error + 16 word list" where
  "frombuffer_int16 buf = (if odd (length buf) then Inl ValueError else Inr (int16_samples buf))"

text \<open>
  \<^verbatim>\<open>.astype(np.float32) / 32768.0\<close> on one sample. A 16-bit integer is a float32 without
  rounding, and so is its quotient by the power of two, so the float is the rational
  number itself.
\<close>

definition to_float32 :: "16 word \<Rightarrow> real" where
  "to_float32 s = real_of_int (sint s) / 32768"

definition pcm_to_float :: "byte list \<Rightarrow> py_error + real list" where
  "pcm_to_float buf =
     (case frombuffer_int16 buf of Inl e \<Rightarrow> Inl e | Inr samples \<Rightarrow> Inr (map to_float32 samples))"

subsection \<open>Recognition\<close>

text \<open>
  A Python \<^verbatim>\<open>str\<close> is indexed by character. A \<open>string\<close> holds the UTF-8 bytes of the
  text, so it is cut into characters first: the leading byte of a character tells how
  many bytes it has.
\<close>

definition utf8_width :: "char \<Rightarrow> nat" where
  "utf8_width c =
     (let n = (of_char c :: nat)
      in if n < 0x80 then 1 else if n < 0xE0 then 2 else if n < 0xF0 then 3 else 4)"

function utf8_chars :: "string \<Rightarrow> string list" where
  "utf8_chars [] = []"
| "utf8_chars (c # cs) =
     (c # take (utf8_width c - 1) cs) # utf8_chars (drop (utf8_width c - 1) cs)"
  by pat_completeness auto
termination
  by (relation "measure length") auto

text \<open>\<^verbatim>\<open>v[i]\<close> for an index \<open>i\<close>; \<open>None\<close> where Python raises.\<close>

fun py_index :: "pyval \<Rightarrow> nat \<Rightarrow> pyval option" where
  "py_index (PList xs) i = (if i < length xs then Some (xs ! i) else None)"
| "py_index (PStr s) i =
     (if i < length (utf8_chars s) then Some (PStr (utf8_chars s ! i)) else None)"
| "py_index _ i = None"

text \<open>
  One segment of the recognizer's \<^verbatim>\<open>"timestamp"\<close> list: the entry appended to
  \<^verbatim>\<open>timestamps\<close>, or \<open>None\<close> when the segment is only logged (wrong shape, or an
  exception while reading it, caught inside the loop).
\<close>

definition segment_entry :: "pyval \<Rightarrow> pyval option" where
  "segment_entry segment =
     (if dict_has segment ''text'' \<and> dict_has segment ''timestamp'' then
        (case (dict_item segment ''text'', dict_item segment ''timestamp'') of
           (Inr t, Inr ts) \<Rightarrow>
             (case (py_index ts 0, py_index ts 1) of
                (Some a, Some b) \<Rightarrow> Some (PDict [(''text'', t), (''start'', a), (''end'', b)])
              | _ \<Rightarrow> None)
         | _ \<Rightarrow> None)
      else None)"

text \<open>\<^verbatim>\<open>len(text)\<close>, evaluated for the log line: the message of the \<^verbatim>\<open>TypeError\<close> where the
  value has no length.\<close>

fun len_error :: "pyval \<Rightarrow> string option" where
  "len_error PNone = Some (''object of type '' @ [CHR 0x27] @ ''NoneType'' @ [CHR 0x27] @ '' has no len()'')"
| "len_error (PBool b) = Some (''object of type '' @ [CHR 0x27] @ ''bool'' @ [CHR 0x27] @ '' has no len()'')"
| "len_error (PInt i) = Some (''object of type '' @ [CHR 0x27] @ ''int'' @ [CHR 0x27] @ '' has no len()'')"
| "len_error (PFloat r) = Some (''object of type '' @ [CHR 0x27] @ ''float'' @ [CHR 0x27] @ '' has no len()'')"
| "len_error _ = None"

text \<open>The message returned for a recognizer value that is not a dictionary (UTF-8).\<close>

definition format_error :: string where
  "format_error =
     [CHR 0xE6, CHR 0xA8, CHR 0xA1, CHR 0xE5, CHR 0x9E, CHR 0x8B, CHR 0xE8, CHR 0xBF,
      CHR 0x94, CHR 0xE5, CHR 0x9B, CHR 0x9E, CHR 0xE6, CHR 0xA0, CHR 0xBC, CHR 0xE5,
      CHR 0xBC, CHR 0x8F, CHR 0xE9, CHR 0x94, CHR 0x99, CHR 0xE8, CHR 0xAF, CHR 0xAF]"

definition error_result :: "string \<Rightarrow> pyval" where
  "error_result msg = PDict [(''text'', PStr []), (''error'', PStr msg), (''timestamps'', PList [])]"

text \<open>
  The body of the \<^verbatim>\<open>try\<close> of \<^verbatim>\<open>recognize_audio\<close> once the recognizer has returned
  \<open>result\<close>.
\<close>

definition map_result :: "pyval \<Rightarrow> pyval" where
  "map_result result =
     (case result of
        PDict kvs \<Rightarrow>
          (let text = (case map_of kvs ''text'' of None \<Rightarrow> PStr [] | Some v \<Rightarrow> v);
               timestamps =
                 (case map_of kvs ''timestamp'' of
                    Some (PList segments) \<Rightarrow> List.map_filter segment_entry segments
                  | _ \<Rightarrow> [])
           in case len_error text of
                Some msg \<Rightarrow> error_result msg
              | None \<Rightarrow> PDict [(''text'', text), (''timestamps'', PList timestamps)])
      | _ \<Rightarrow> error_result format_error)"

text \<open>
  \<^verbatim>\<open>recognize_audio\<close>. \<open>generate\<close> is the recognizer, \<^verbatim>\<open>self.model.generate\<close>, called
  with the samples and the sample rate: it returns a value, or raises an exception whose
  message is \<open>Inl\<close>'s. The conversion of the samples stands before the \<^verbatim>\<open>try\<close>, so its
  \<^verbatim>\<open>ValueError\<close> leaves the function.
\<close>

definition recognize_audio ::
  "(real list \<Rightarrow> pyval \<Rightarrow> string + pyval) \<Rightarrow> (nat \<rightharpoonup> session) \<Rightarrow> nat \<Rightarrow> py_error + pyval" where
  "recognize_audio generate cs client_id =
     (case cs client_id of
        None \<Rightarrow> Inl KeyError
      | Some client_data \<Rightarrow>
          if audio_buffer client_data = [] then
            Inr (PDict [(''text'', PStr []), (''timestamps'', PList [])])
          else
            (case pcm_to_float (audio_buffer client_data) of
               Inl e \<Rightarrow> Inl e
             | Inr audio_np \<Rightarrow>
                 (case generate audio_np (sample_rate client_data) of
                    Inl msg \<Rightarrow> Inr (error_result msg)
                  | Inr result \<Rightarrow> Inr (map_result result))))"

subsection \<open>The connection handler\<close>

text \<open>
  The three lines that both the eof branch and the threshold branch of
  \<^verbatim>\<open>process_audio\<close> run: recognize the session's buffer, send the result, empty the
  buffer. \<open>can_send n\<close> tells whether \<^verbatim>\<open>websocket.send\<close> succeeds when \<open>n\<close> results
  have been sent before; it raises \<^verbatim>\<open>ConnectionClosed\<close> otherwise. The result is a
  JSON value, so \<^verbatim>\<open>json.dumps\<close> does not fail on it.
\<close>

definition dispatch ::
  "(real list \<Rightarrow> pyval \<Rightarrow> string + pyval) \<Rightarrow> (nat \<Rightarrow> bool) \<Rightarrow> nat \<Rightarrow> server \<Rightarrow> step" where
  "dispatch generate can_send client_id s =
     (case clients s client_id of
        None \<Rightarrow> Raise KeyError s
      | Some sess \<Rightarrow>
          (let s1 = s\<lparr>dispatched := dispatched s @ [audio_buffer sess]\<rparr>
           in case recognize_audio generate (clients s) client_id of
                Inl e \<Rightarrow> Raise e s1
              | Inr result \<Rightarrow>
                  if can_send (length (sent s)) then
                    Continue (s1\<lparr>sent := sent s @ [result],
                                 clients := (clients s)(client_id \<mapsto> sess\<lparr>audio_buffer := []\<rparr>)\<rparr>)
                  else Raise ConnectionClosed s1))"

text \<open>
  One turn of the \<^verbatim>\<open>async for\<close> loop. \<open>loads\<close> is \<^verbatim>\<open>json.loads\<close>, \<open>None\<close> where it
  raises \<^verbatim>\<open>JSONDecodeError\<close>. \<^verbatim>\<open>data.get\<close> exists on dictionaries only.
\<close>

definition handle_message ::
  "(string \<Rightarrow> pyval option) \<Rightarrow> (real list \<Rightarrow> pyval \<Rightarrow> string + pyval) \<Rightarrow> (nat \<Rightarrow> bool) \<Rightarrow>
     nat \<Rightarrow> message \<Rightarrow> server \<Rightarrow> step" where
  "handle_message loads generate can_send client_id msg s =
     (case msg of
        Str text \<Rightarrow>
          (case loads text of
             None \<Rightarrow> Raise JSONDecodeError s
           | Some (PDict kvs) \<Rightarrow>
               if map_of kvs ''type'' = Some (PStr ''config'') then
                 (case clients s client_id of
                    None \<Rightarrow> Raise KeyError s
                  | Some sess \<Rightarrow>
                      Continue (s\<lparr>clients := (clients s)(client_id \<mapsto>
                        sess\<lparr>sample_rate :=
                          (case map_of kvs ''sample_rate'' of None \<Rightarrow> PInt 16000 | Some v \<Rightarrow> v)\<rparr>)\<rparr>))
               else if map_of kvs ''type'' = Some (PStr ''eof'') then
                 dispatch generate can_send client_id s
               else Continue s
           | Some _ \<Rightarrow> Raise AttributeError s)
      | Bytes b \<Rightarrow>
          (case clients s client_id of
             None \<Rightarrow> Raise KeyError s
           | Some sess \<Rightarrow>
               (let s1 = s\<lparr>clients := (clients s)(client_id \<mapsto>
                           sess\<lparr>audio_buffer := audio_buffer sess @ b\<rparr>)\<rparr>
                in if length (audio_buffer sess @ b) > 32000
                   then dispatch generate can_send client_id s1
                   else Continue s1)))"

text \<open>The loop: it stops at the first exception, with the state reached.\<close>

fun run_messages ::
  "(string \<Rightarrow> pyval option) \<Rightarrow> (real list \<Rightarrow> pyval \<Rightarrow> string + pyval) \<Rightarrow> (nat \<Rightarrow> bool) \<Rightarrow>
     nat \<Rightarrow> message list \<Rightarrow> server \<Rightarrow> step" where
  "run_messages loads generate can_send client_id [] s = Continue s"
| "run_messages loads generate can_send client_id (m # ms) s =
     (case handle_message loads generate can_send client_id m s of
        Continue s' \<Rightarrow> run_messages loads generate can_send client_id ms s'
      | Raise e s' \<Rightarrow> Raise e s')"

text \<open>
  \<^verbatim>\<open>process_audio\<close> for the messages of one connection, which end where the peer
  closes it: the session is created, the loop runs, both \<^verbatim>\<open>except\<close> clauses log the
  exception (the first component of the result), and \<^verbatim>\<open>finally\<close> deletes the session.
\<close>

definition new_session :: session where
  "new_session = \<lparr>audio_buffer = [], sample_rate = PInt 16000\<rparr>"

definition process_audio ::
  "(string \<Rightarrow> pyval option) \<Rightarrow> (real list \<Rightarrow> pyval \<Rightarrow> string + pyval) \<Rightarrow> (nat \<Rightarrow> bool) \<Rightarrow>
     nat \<Rightarrow> message list \<Rightarrow> server \<Rightarrow> py_error option \<times> server" where
  "process_audio loads generate can_send client_id msgs s =
     (let s0 = s\<lparr>clients := (clients s)(client_id \<mapsto> new_session)\<rparr>
      in case run_messages loads generate can_send client_id msgs s0 of
           Continue s' \<Rightarrow> (None, s'\<lparr>clients := (clients s')(client_id := None)\<rparr>)
         | Raise e s' \<Rightarrow> (Some e, s'\<lparr>clients := (clients s')(client_id := None)\<rparr>))"

text \<open>
  The eof message as the client sends it from \<^verbatim>\<open>stop_recording\<close>:
  \<^verbatim>\<open>json.dumps({"type": "eof"})\<close>.
\<close>

definition eof_message :: string where
  "eof_message =
     ''{'' @ [CHR 0x22] @ ''type'' @ [CHR 0x22] @ '': '' @ [CHR 0x22] @ ''eof'' @ [CHR 0x22] @ ''}''"

section \<open>The client (client.py)\<close>

text \<open>
  The fields of \<^verbatim>\<open>ASRClient\<close> that recording and the result loop read or write. The
  screen is the list of what \<^verbatim>\<open>_display_results\<close> has printed: the text shown as
  current and the accumulated text at that moment (the session duration that is printed
  too depends on the clock and is left out).
\<close>

record client =
  is_recording :: bool
  stream :: "nat option"
  current_text :: pyval
  accumulated_text :: string
  session_start_time :: real
  screen :: "(string \<times> string) list"

text \<open>
  \<^verbatim>\<open>start_recording\<close>: nothing happens while a recording is running. Otherwise the
  start time and the accumulated text are reset, then the audio device is opened
  (\<open>opened\<close> is what \<^verbatim>\<open>self.audio.open\<close> gives: a stream, or the exception it
  raises, which leaves the two assignments made before it in place).
\<close>

definition start_recording :: "real \<Rightarrow> py_error + nat \<Rightarrow> client \<Rightarrow> py_error option \<times> client" where
  "start_recording now opened c =
     (if is_recording c then (None, c)
      else
        let c1 = c\<lparr>session_start_time := now, accumulated_text := []\<rparr>
        in case opened of
             Inl e \<Rightarrow> (Some e, c1)
           | Inr h \<Rightarrow> (None, c1\<lparr>stream := Some h, is_recording := True\<rparr>))"

text \<open>
  The merge of one non-empty text into the accumulated text
  (lines 122 to 126 of \<^verbatim>\<open>receive_results\<close>).
\<close>

definition accumulate :: "string \<Rightarrow> string \<Rightarrow> string" where
  "accumulate acc text =
     (if \<not> suffix text acc \<and> \<not> sublist text acc
      then (if acc \<noteq> [] then acc @ '' '' @ text else text)
      else acc)"

text \<open>\<^verbatim>\<open>_display_results\<close>: nothing for an empty text.\<close>

definition display_results :: "string \<Rightarrow> client \<Rightarrow> client" where
  "display_results text c =
     (if text = [] then c else c\<lparr>screen := screen c @ [(text, accumulated_text c)]\<rparr>)"

text \<open>
  One turn of the loop of \<^verbatim>\<open>receive_results\<close> on a received message. \<open>loads\<close> is
  \<^verbatim>\<open>json.loads\<close>, \<open>None\<close> where it raises \<^verbatim>\<open>JSONDecodeError\<close>. Both handlers inside
  the loop only log, so the turn always ends with a client state:
  \<^item> a message that does not decode changes nothing;
  \<^item> a dictionary with an \<^verbatim>\<open>"error"\<close> key is skipped by \<^verbatim>\<open>continue\<close>;
  \<^item> a truthy \<^verbatim>\<open>"text"\<close> is stored in \<open>current_text\<close> first; when it is not a string,
    \<^verbatim>\<open>endswith\<close> raises \<^verbatim>\<open>TypeError\<close>, which is caught after that assignment and before
    any display.
\<close>

definition receive_result :: "(string \<Rightarrow> pyval option) \<Rightarrow> string \<Rightarrow> client \<Rightarrow> client" where
  "receive_result loads message c =
     (case loads message of
        None \<Rightarrow> c
      | Some result \<Rightarrow>
          if dict_has result ''error'' then c
          else if dict_has result ''text'' then
            (case dict_item result ''text'' of
               Inl e \<Rightarrow> c
             | Inr text \<Rightarrow>
                 if truthy text then
                   (let c1 = c\<lparr>current_text := text\<rparr>
                    in case text of
                         PStr t \<Rightarrow>
                           display_results t
                             (c1\<lparr>accumulated_text := accumulate (accumulated_text c1) t\<rparr>)
                       | _ \<Rightarrow> c1)
                 else c)
          else display_results [] c)"

text \<open>The loop itself, over the messages received until the connection closes.\<close>

fun receive_results :: "(string \<Rightarrow> pyval option) \<Rightarrow> string list \<Rightarrow> client \<Rightarrow> client" where
  "receive_results loads [] c = c"
| "receive_results loads (m # ms) c = receive_results loads ms (receive_result loads m c)"

section \<open>Properties of the sample conversion\<close>

lemma length_int16_samples: "length (int16_samples buf) = length buf div 2"
  by (induction buf rule: int16_samples.induct) simp_all

lemma nth_int16_samples:
  "2 * i + 1 < length buf \<Longrightarrow>
     int16_samples buf ! i = word_cat (buf ! (2 * i + 1)) (buf ! (2 * i))"
proof (induction buf arbitrary: i rule: int16_samples.induct)
  case (1 lo hi bs)
  then show ?case by (cases i) simp_all
qed simp_all

lemma to_float32_range: "- 1 \<le> to_float32 s \<and> to_float32 s \<le> 1"
proof -
  have "- 32768 \<le> sint s" "sint s < 32768"
    using sint_ge [of s] sint_lt [of s] by simp_all
  then have "- 32768 \<le> real_of_int (sint s)" "real_of_int (sint s) \<le> 32768"
    by linarith+
  then show ?thesis
    unfolding to_float32_def by (simp del: of_int_sint)
qed

lemma pcm_to_float_even:
  "even (length buf) \<Longrightarrow> pcm_to_float buf = Inr (map to_float32 (int16_samples buf))"
  by (simp add: pcm_to_float_def frombuffer_int16_def)

lemma pcm_to_float_odd: "odd (length buf) \<Longrightarrow> pcm_to_float buf = Inl ValueError"
  by (simp add: pcm_to_float_def frombuffer_int16_def)

text \<open>
  C8. The conversion has a failure mode: on a buffer of one byte \<^verbatim>\<open>np.frombuffer\<close> raises
  \<^verbatim>\<open>ValueError\<close>, which leaves \<^verbatim>\<open>recognize_audio\<close>; a session that has received a frame
  of one byte and then the eof message ends with that exception.
\<close>

theorem sample_conversion_counterexample:
  "pcm_to_float [1 :: byte] = Inl ValueError \<and>
   recognize_audio (\<lambda>a r. Inr (PDict []))
     [0 \<mapsto> \<lparr>audio_buffer = [1], sample_rate = PInt 16000\<rparr>] 0 = Inl ValueError \<and>
   process_audio (\<lambda>t. if t = eof_message then Some (PDict [(''type'', PStr ''eof'')]) else None)
     (\<lambda>a r. Inr (PDict [])) (\<lambda>n. True) 0 [Bytes [1], Str eof_message]
     \<lparr>clients = Map.empty, sent = [], dispatched = []\<rparr> =
     (Some ValueError, \<lparr>clients = Map.empty, sent = [], dispatched = [[1]]\<rparr>)"
  by (simp add: process_audio_def handle_message_def dispatch_def recognize_audio_def
      pcm_to_float_odd new_session_def Let_def)

text \<open>
  C8, as the code has it. A non-empty buffer with an even number of bytes is always
  converted: sample \<open>i\<close> is made of the bytes \<open>2 i\<close> (low) and \<open>2 i + 1\<close> (high), read
  as a signed 16-bit integer \<open>s\<close>, and becomes \<open>s / 32768\<close>, which lies between \<open>-1\<close> and
  \<open>1\<close>. The conversion does not fail on such a buffer.
\<close>

theorem sample_conversion:
  assumes "buf \<noteq> []" and "even (length buf)"
  shows "\<exists>samples. pcm_to_float buf = Inr samples \<and> length samples = length buf div 2 \<and>
           (\<forall>i < length samples.
              samples ! i =
                real_of_int (sint (word_cat (buf ! (2 * i + 1)) (buf ! (2 * i)) :: 16 word)) / 32768 \<and>
              - 1 \<le> samples ! i \<and> samples ! i \<le> 1)"
proof -
  let ?samples = "map to_float32 (int16_samples buf)"
  have conv: "pcm_to_float buf = Inr ?samples"
    using assms(2) by (rule pcm_to_float_even)
  have len: "length ?samples = length buf div 2"
    by (simp add: length_int16_samples)
  have each: "?samples ! i =
       real_of_int (sint (word_cat (buf ! (2 * i + 1)) (buf ! (2 * i)) :: 16 word)) / 32768 \<and>
       - 1 \<le> ?samples ! i \<and> ?samples ! i \<le> 1" if "i < length ?samples" for i
  proof -
    from that have i: "i < length buf div 2"
      by (simp add: length_int16_samples)
    with assms(2) have "2 * i + 1 < length buf"
      by (auto elim!: evenE)
    then have "int16_samples buf ! i = word_cat (buf ! (2 * i + 1)) (buf ! (2 * i))"
      by (rule nth_int16_samples)
    moreover have "?samples ! i = to_float32 (int16_samples buf ! i)"
      using i by (simp add: length_int16_samples)
    ultimately show ?thesis
      using to_float32_range [of "int16_samples buf ! i"]
      by (simp add: to_float32_def del: of_int_sint)
  qed
  from conv len each show ?thesis by blast
qed

theorem sample_conversion_witness:
  "[0xFE, 0xFF :: byte] \<noteq> [] \<and> even (length [0xFE, 0xFF :: byte]) \<and>
   (\<exists>samples. pcm_to_float [0xFE, 0xFF] = Inr samples \<and>
      length samples = length [0xFE, 0xFF :: byte] div 2 \<and>
      (\<forall>i < length samples.
         samples ! i =
           real_of_int (sint (word_cat ([0xFE, 0xFF :: byte] ! (2 * i + 1))
                                       ([0xFE, 0xFF :: byte] ! (2 * i)) :: 16 word)) / 32768 \<and>
         - 1 \<le> samples ! i \<and> samples ! i \<le> 1))"
  using sample_conversion [of "[0xFE, 0xFF]"] by simp

section \<open>Properties of the client\<close>

text \<open>
  C3. Fed \<open>hello\<close>, \<open>hello world\<close> and \<open>world\<close> in this order from an empty accumulated
  text, the aggregator does not end with \<open>hello world\<close>: the second text is neither a
  suffix nor a substring of \<open>hello\<close>, so it is appended whole.
\<close>

theorem transcript_example_counterexample:
  "accumulate (accumulate (accumulate [] ''hello'') ''hello world'') ''world'' \<noteq> ''hello world''"
  by code_simp

text \<open>
  C3, as the code has it. The three inputs give \<open>hello\<close>, then \<open>hello hello world\<close>, and
  the third input appends nothing; and the accumulated text never changes for a text that
  is a substring of it.
\<close>

theorem transcript_example:
  "accumulate [] ''hello'' = ''hello'' \<and>
   accumulate ''hello'' ''hello world'' = ''hello hello world'' \<and>
   accumulate ''hello hello world'' ''world'' = ''hello hello world'' \<and>
   (\<forall>acc text. sublist text acc \<longrightarrow> accumulate acc text = acc)"
proof -
  have "accumulate [] ''hello'' = ''hello'' \<and>
        accumulate ''hello'' ''hello world'' = ''hello hello world'' \<and>
        accumulate ''hello hello world'' ''world'' = ''hello hello world''"
    by code_simp
  moreover have "\<forall>acc text. sublist text acc \<longrightarrow> accumulate acc text = acc"
    by (simp add: accumulate_def)
  ultimately show ?thesis by blast
qed

theorem transcript_example_witness:
  "sublist ''world'' ''hello hello world'' \<and>
   accumulate ''hello hello world'' ''world'' = ''hello hello world''"
proof -
  have sub: "sublist ''world'' ''hello hello world''"
    by code_simp
  from transcript_example have "sublist ''world'' ''hello hello world'' \<longrightarrow>
      accumulate ''hello hello world'' ''world'' = ''hello hello world''"
    by blast
  with sub show ?thesis by blast
qed

text \<open>
  C4. A result message that decodes to a dictionary without an \<open>error\<close> key and with the
  string \<open>text\<close> under \<open>text\<close>: an empty text changes nothing; otherwise the current text
  becomes \<open>text\<close>, and \<open>text\<close> is appended to the accumulated text, after one space unless
  the accumulated text was empty, exactly when the accumulated text neither ends with it
  nor contains it; in the other case the accumulated text stays as it was. Recording
  state and start time are never touched.
\<close>

theorem on_result:
  assumes "loads m = Some (PDict kvs)"
    and "map_of kvs ''error'' = None"
    and "map_of kvs ''text'' = Some (PStr text)"
  shows "(text = [] \<longrightarrow> receive_result loads m c = c) \<and>
         (text \<noteq> [] \<longrightarrow>
            current_text (receive_result loads m c) = PStr text \<and>
            (\<not> suffix text (accumulated_text c) \<and> \<not> sublist text (accumulated_text c) \<longrightarrow>
               accumulated_text (receive_result loads m c) =
                 (if accumulated_text c = [] then text else accumulated_text c @ '' '' @ text)) \<and>
            (suffix text (accumulated_text c) \<or> sublist text (accumulated_text c) \<longrightarrow>
               accumulated_text (receive_result loads m c) = accumulated_text c) \<and>
            is_recording (receive_result loads m c) = is_recording c \<and>
            session_start_time (receive_result loads m c) = session_start_time c)"
  using assms by (simp add: receive_result_def accumulate_def display_results_def Let_def)

theorem on_result_witness:
  "accumulated_text
     (receive_result (\<lambda>m. Some (PDict [(''text'', PStr ''world'')])) []
        \<lparr>is_recording = True, stream = None, current_text = PStr [],
         accumulated_text = ''hello'', session_start_time = 0, screen = []\<rparr>) = ''hello world'' \<and>
   current_text
     (receive_result (\<lambda>m. Some (PDict [(''text'', PStr ''world'')])) []
        \<lparr>is_recording = True, stream = None, current_text = PStr [],
         accumulated_text = ''hello'', session_start_time = 0, screen = []\<rparr>) = PStr ''world''"
proof -
  have "\<not> suffix ''world'' ''hello''" "\<not> sublist ''world'' ''hello''"
    by code_simp+
  then show ?thesis
    using on_result [of "\<lambda>m. Some (PDict [(''text'', PStr ''world'')])" "[]"
        "[(''text'', PStr ''world'')]" "''world''"
        "\<lparr>is_recording = True, stream = None, current_text = PStr [],
          accumulated_text = ''hello'', session_start_time = 0, screen = []\<rparr>"]
    by simp
qed

text \<open>
  C6. Starting a recording does not clear the current text: a client that is not
  recording and whose current text is \<open>hello\<close> still has it after \<open>start_recording\<close>.
\<close>

theorem reset_counterexample:
  "current_text (snd (start_recording 5 (Inr 0)
      \<lparr>is_recording = False, stream = None, current_text = PStr ''hello'',
       accumulated_text = ''hello'', session_start_time = 0, screen = []\<rparr>)) = PStr ''hello''"
  by (simp add: start_recording_def)

text \<open>
  C6, as the code has it. When no recording is running, \<open>start_recording\<close> empties the
  accumulated text and sets the start time to the current time, whether or not the audio
  device opens; the current text is left as it was.
\<close>

theorem reset:
  assumes "\<not> is_recording c"
  shows "accumulated_text (snd (start_recording now opened c)) = [] \<and>
         session_start_time (snd (start_recording now opened c)) = now \<and>
         current_text (snd (start_recording now opened c)) = current_text c"
  using assms by (simp add: start_recording_def Let_def split: sum.splits)

theorem reset_witness:
  "accumulated_text (snd (start_recording 5 (Inr 0)
      \<lparr>is_recording = False, stream = None, current_text = PStr ''hello'',
       accumulated_text = ''hello'', session_start_time = 0, screen = []\<rparr>)) = [] \<and>
   session_start_time (snd (start_recording 5 (Inr 0)
      \<lparr>is_recording = False, stream = None, current_text = PStr ''hello'',
       accumulated_text = ''hello'', session_start_time = 0, screen = []\<rparr>)) = 5"
  using reset [of "\<lparr>is_recording = False, stream = None, current_text = PStr ''hello'',
       accumulated_text = ''hello'', session_start_time = 0, screen = []\<rparr>" 5 "Inr 0"]
  by simp

text \<open>
  C9. A received message that decodes to a dictionary with an \<open>error\<close> key leaves the
  client as it was: current text, accumulated text and screen are unchanged, whatever
  else the dictionary holds.
\<close>

theorem error_result_skipped:
  assumes "loads m = Some r" and "dict_has r ''error''"
  shows "receive_result loads m c = c"
  using assms by (simp add: receive_result_def)

theorem error_result_skipped_witness:
  "receive_result (\<lambda>m. Some (PDict [(''text'', PStr ''world''), (''error'', PStr ''boom'')])) []
     \<lparr>is_recording = True, stream = None, current_text = PStr [],
      accumulated_text = ''hello'', session_start_time = 0, screen = []\<rparr> =
   \<lparr>is_recording = True, stream = None, current_text = PStr [],
    accumulated_text = ''hello'', session_start_time = 0, screen = []\<rparr>"
  using error_result_skipped [of "\<lambda>m. Some (PDict [(''text'', PStr ''world''), (''error'', PStr ''boom'')])"
      "[]" "PDict [(''text'', PStr ''world''), (''error'', PStr ''boom'')]"]
  by simp

section \<open>Properties of the server\<close>

lemma recognize_audio_even:
  assumes "cs cid = Some sess" "even (length (audio_buffer sess))"
  shows "\<exists>r. recognize_audio generate cs cid = Inr r"
  using assms by (simp add: recognize_audio_def pcm_to_float_even split: sum.splits)

lemma recognize_audio_odd:
  assumes "cs cid = Some sess" "odd (length (audio_buffer sess))"
  shows "recognize_audio generate cs cid = Inl ValueError"
proof -
  from assms(2) have "audio_buffer sess \<noteq> []" by auto
  with assms show ?thesis
    by (simp add: recognize_audio_def pcm_to_float_odd)
qed

lemma dispatch_ok:
  assumes "clients s cid = Some sess" "recognize_audio generate (clients s) cid = Inr r"
    "can_send (length (sent s))"
  shows "dispatch generate can_send cid s =
     Continue (s\<lparr>dispatched := dispatched s @ [audio_buffer sess], sent := sent s @ [r],
                 clients := (clients s)(cid \<mapsto> sess\<lparr>audio_buffer := []\<rparr>)\<rparr>)"
  using assms by (simp add: dispatch_def Let_def)

lemma run_messages_append:
  "run_messages loads generate can_send cid (xs @ ys) s =
     (case run_messages loads generate can_send cid xs s of
        Continue s' \<Rightarrow> run_messages loads generate can_send cid ys s'
      | Raise e s' \<Rightarrow> Raise e s')"
  by (induction xs arbitrary: s) (simp_all split: step.splits)

lemma frames_below_threshold:
  assumes "clients s cid = Some sess"
    and "length (audio_buffer sess) + length (concat fs) \<le> 32000"
  shows "run_messages loads generate can_send cid (map Bytes fs) s =
     Continue (s\<lparr>clients := (clients s)(cid \<mapsto> sess\<lparr>audio_buffer := audio_buffer sess @ concat fs\<rparr>)\<rparr>)"
  using assms
proof (induction fs arbitrary: s sess)
  case Nil
  then show ?case by (simp add: map_upd_triv)
next
  case (Cons f fs)
  let ?sess = "sess\<lparr>audio_buffer := audio_buffer sess @ f\<rparr>"
  let ?s = "s\<lparr>clients := (clients s)(cid \<mapsto> ?sess)\<rparr>"
  have step: "handle_message loads generate can_send cid (Bytes f) s = Continue ?s"
    using Cons.prems by (simp add: handle_message_def Let_def)
  have "run_messages loads generate can_send cid (map Bytes (f # fs)) s =
        run_messages loads generate can_send cid (map Bytes fs) ?s"
    using step by simp
  also have "\<dots> =
     Continue (?s\<lparr>clients := (clients ?s)(cid \<mapsto> ?sess\<lparr>audio_buffer := audio_buffer ?sess @ concat fs\<rparr>)\<rparr>)"
    using Cons.prems by (intro Cons.IH) simp_all
  also have "\<dots> = Continue (s\<lparr>clients := (clients s)(cid \<mapsto>
        sess\<lparr>audio_buffer := audio_buffer sess @ concat (f # fs)\<rparr>)\<rparr>)"
    by simp
  finally show ?case .
qed


lemma concat_prefix_length: "prefix ps fs \<Longrightarrow> length (concat ps) \<le> length (concat fs)"
  by (auto simp: prefix_def)

text \<open>
  C1, as the code has it. The threshold test is \<open>length > 32000\<close>. On a session whose
  buffer is empty, let the frames \<open>fs\<close> total at most 32000 bytes and the next frame \<open>f\<close>
  bring the total above 32000, to an even number of bytes, with the connection able to
  carry the result. Then no frame of \<open>fs\<close> dispatches (after every prefix of \<open>fs\<close> the
  buffer holds exactly the bytes received, and nothing was sent or recognized), and the
  call with \<open>f\<close> makes exactly one dispatch, of exactly the bytes \<open>concat fs @ f\<close>, sends
  its result and leaves the buffer empty.
\<close>

theorem threshold_dispatch:
  assumes sess: "clients s cid = Some sess" and empty: "audio_buffer sess = []"
    and below: "length (concat fs) \<le> 32000" and above: "length (concat fs @ f) > 32000"
    and aligned: "even (length (concat fs @ f))" and send: "can_send (length (sent s))"
  shows "(\<forall>ps. prefix ps fs \<longrightarrow>
            run_messages loads generate can_send cid (map Bytes ps) s =
              Continue (s\<lparr>clients := (clients s)(cid \<mapsto> sess\<lparr>audio_buffer := concat ps\<rparr>)\<rparr>)) \<and>
         (\<exists>r. recognize_audio generate
                 ((clients s)(cid \<mapsto> sess\<lparr>audio_buffer := concat fs @ f\<rparr>)) cid = Inr r \<and>
              run_messages loads generate can_send cid (map Bytes (fs @ [f])) s =
                Continue (s\<lparr>clients := (clients s)(cid \<mapsto> sess\<lparr>audio_buffer := []\<rparr>),
                            sent := sent s @ [r],
                            dispatched := dispatched s @ [concat fs @ f]\<rparr>))"
proof (intro conjI allI impI)
  fix ps :: "byte list list"
  assume "prefix ps fs"
  then have "length (audio_buffer sess) + length (concat ps) \<le> 32000"
    using below empty concat_prefix_length [of ps fs] by simp
  with sess show "run_messages loads generate can_send cid (map Bytes ps) s =
      Continue (s\<lparr>clients := (clients s)(cid \<mapsto> sess\<lparr>audio_buffer := concat ps\<rparr>)\<rparr>)"
    using frames_below_threshold [of s cid sess ps loads generate can_send] empty by simp
next
  let ?sess1 = "sess\<lparr>audio_buffer := concat fs\<rparr>"
  let ?s1 = "s\<lparr>clients := (clients s)(cid \<mapsto> ?sess1)\<rparr>"
  let ?sess2 = "sess\<lparr>audio_buffer := concat fs @ f\<rparr>"
  let ?s2 = "s\<lparr>clients := (clients s)(cid \<mapsto> ?sess2)\<rparr>"
  have run1: "run_messages loads generate can_send cid (map Bytes fs) s = Continue ?s1"
    using frames_below_threshold [of s cid sess fs loads generate can_send] sess below empty
    by simp
  obtain r where r: "recognize_audio generate (clients ?s2) cid = Inr r"
    using recognize_audio_even [of "clients ?s2" cid ?sess2 generate] aligned by auto
  have disp: "dispatch generate can_send cid ?s2 =
      Continue (?s2\<lparr>dispatched := dispatched ?s2 @ [audio_buffer ?sess2], sent := sent ?s2 @ [r],
                    clients := (clients ?s2)(cid \<mapsto> ?sess2\<lparr>audio_buffer := []\<rparr>)\<rparr>)"
    using r send by (intro dispatch_ok) simp_all
  have step: "handle_message loads generate can_send cid (Bytes f) ?s1 =
      dispatch generate can_send cid ?s2"
    using above by (simp add: handle_message_def Let_def)
  have "run_messages loads generate can_send cid (map Bytes (fs @ [f])) s =
      handle_message loads generate can_send cid (Bytes f) ?s1"
    using run1 by (simp add: run_messages_append split: step.splits)
  also have "\<dots> = Continue (s\<lparr>clients := (clients s)(cid \<mapsto> sess\<lparr>audio_buffer := []\<rparr>),
                            sent := sent s @ [r],
                            dispatched := dispatched s @ [concat fs @ f]\<rparr>)"
    unfolding step disp by simp
  finally show "\<exists>r. recognize_audio generate
                 ((clients s)(cid \<mapsto> sess\<lparr>audio_buffer := concat fs @ f\<rparr>)) cid = Inr r \<and>
              run_messages loads generate can_send cid (map Bytes (fs @ [f])) s =
                Continue (s\<lparr>clients := (clients s)(cid \<mapsto> sess\<lparr>audio_buffer := []\<rparr>),
                            sent := sent s @ [r],
                            dispatched := dispatched s @ [concat fs @ f]\<rparr>)"
    using r by auto
qed

text \<open>
  C1. Ten frames of 3200 bytes total exactly 32000 bytes, which is not above the
  threshold: after the tenth frame nothing has been dispatched or sent, and the buffer
  still holds the 32000 bytes.
\<close>

theorem ten_frames_counterexample:
  "run_messages (\<lambda>t. None) (\<lambda>a r. Inl []) (\<lambda>n. True) 0
     (replicate 10 (Bytes (replicate 3200 0)))
     \<lparr>clients = [0 \<mapsto> new_session], sent = [], dispatched = []\<rparr> =
   Continue \<lparr>clients = [0 \<mapsto> \<lparr>audio_buffer = concat (replicate 10 (replicate 3200 0)),
                                sample_rate = PInt 16000\<rparr>],
             sent = [], dispatched = []\<rparr> \<and>
   length (concat (replicate 10 (replicate 3200 (0 :: byte)))) = 32000"
proof -
  have len: "length (concat (replicate 10 (replicate 3200 (0 :: byte)))) = 32000"
    by (simp add: length_concat sum_list_replicate)
  have "map Bytes (replicate 10 (replicate 3200 (0 :: byte))) = replicate 10 (Bytes (replicate 3200 0))"
    by simp
  then show ?thesis
    using len frames_below_threshold [of "\<lparr>clients = [0 \<mapsto> new_session], sent = [], dispatched = []\<rparr>"
        0 new_session "replicate 10 (replicate 3200 0)" "\<lambda>t. None" "\<lambda>a r. Inl []" "\<lambda>n. True"]
    by (simp add: new_session_def)
qed


theorem threshold_dispatch_witness:
  "dispatched (state_of (run_messages (\<lambda>t. None) (\<lambda>a r. Inl []) (\<lambda>n. True) 0
      (map Bytes (replicate 10 (replicate 3200 0) @ [replicate 3200 0]))
      \<lparr>clients = [0 \<mapsto> new_session], sent = [], dispatched = []\<rparr>)) =
     [concat (replicate 10 (replicate 3200 0)) @ replicate 3200 0] \<and>
   map_option audio_buffer (clients (state_of (run_messages (\<lambda>t. None) (\<lambda>a r. Inl []) (\<lambda>n. True) 0
      (map Bytes (replicate 10 (replicate 3200 0) @ [replicate 3200 0]))
      \<lparr>clients = [0 \<mapsto> new_session], sent = [], dispatched = []\<rparr>)) 0) = Some [] \<and>
   length (concat (replicate 10 (replicate 3200 (0 :: byte))) @ replicate 3200 0) = 35200"
proof -
  have len: "length (concat (replicate 10 (replicate 3200 (0 :: byte)))) = 32000"
    by (simp add: length_concat sum_list_replicate)
  show ?thesis
    using len threshold_dispatch [of "\<lparr>clients = [0 \<mapsto> new_session], sent = [], dispatched = []\<rparr>"
        0 new_session "replicate 10 (replicate 3200 0)" "replicate 3200 0" "\<lambda>n. True"
        "\<lambda>t. None" "\<lambda>a r. Inl []"]
    by (auto simp: new_session_def)
qed

lemma dispatch_aligned:
  assumes "\<forall>k sess. clients s k = Some sess \<longrightarrow> even (length (audio_buffer sess))"
  shows "\<forall>k sess. clients (state_of (dispatch generate can_send cid s)) k = Some sess \<longrightarrow>
           even (length (audio_buffer sess))"
  using assms
  by (auto simp: dispatch_def Let_def split: option.splits sum.splits if_splits)

lemma handle_message_aligned:
  assumes "\<forall>k sess. clients s k = Some sess \<longrightarrow> even (length (audio_buffer sess))"
    and "\<forall>b. m = Bytes b \<longrightarrow> even (length b)"
  shows "\<forall>k sess. clients (state_of (handle_message loads generate can_send cid m s)) k = Some sess \<longrightarrow>
           even (length (audio_buffer sess))"
proof (cases m)
  case (Str t)
  show ?thesis
  proof (cases "loads t")
    case None
    with Str assms(1) show ?thesis by (simp add: handle_message_def)
  next
    case (Some data)
    show ?thesis
    proof (cases data)
      case (PDict kvs)
      with Str Some assms(1) dispatch_aligned [OF assms(1), of generate can_send cid]
      show ?thesis
        by (auto simp: handle_message_def split: option.splits if_splits)
    qed (insert Str Some assms(1), simp_all add: handle_message_def)
  qed
next
  case (Bytes b)
  show ?thesis
  proof (cases "clients s cid")
    case None
    with Bytes assms(1) show ?thesis by (simp add: handle_message_def)
  next
    case (Some sess0)
    let ?s1 = "s\<lparr>clients := (clients s)(cid \<mapsto> sess0\<lparr>audio_buffer := audio_buffer sess0 @ b\<rparr>)\<rparr>"
    have inv1: "\<forall>k sess. clients ?s1 k = Some sess \<longrightarrow> even (length (audio_buffer sess))"
      using assms Bytes Some by auto
    show ?thesis
      using Bytes Some inv1 dispatch_aligned [OF inv1, of generate can_send cid]
      by (simp add: handle_message_def Let_def)
  qed
qed

text \<open>
  C7, as the code has it. Frames are appended as they come, so the buffers keep an even
  length when every binary frame received has an even length: if all sessions have
  buffers of even length and all binary frames among the messages have even length, then
  after the loop has run on the messages (to their end or to an exception) every session
  still has a buffer of even length.
\<close>

theorem buffer_aligned:
  assumes "\<forall>b. Bytes b \<in> set msgs \<longrightarrow> even (length b)"
    and "\<forall>k sess. clients s k = Some sess \<longrightarrow> even (length (audio_buffer sess))"
  shows "\<forall>k sess. clients (state_of (run_messages loads generate can_send cid msgs s)) k = Some sess \<longrightarrow>
           even (length (audio_buffer sess))"
  using assms
proof (induction msgs arbitrary: s)
  case Nil
  then show ?case by simp
next
  case (Cons m ms)
  have step: "\<forall>k sess. clients (state_of (handle_message loads generate can_send cid m s)) k = Some sess \<longrightarrow>
           even (length (audio_buffer sess))"
    using Cons.prems by (intro handle_message_aligned) auto
  show ?case
  proof (cases "handle_message loads generate can_send cid m s")
    case (Continue s')
    with step have "\<forall>k sess. clients s' k = Some sess \<longrightarrow> even (length (audio_buffer sess))"
      by simp
    with Cons.prems(1) have "\<forall>k sess. clients (state_of (run_messages loads generate can_send cid ms s')) k = Some sess \<longrightarrow>
           even (length (audio_buffer sess))"
      by (intro Cons.IH) auto
    with Continue show ?thesis by simp
  next
    case (Raise e s')
    with step show ?thesis by simp
  qed
qed

text \<open>
  C7. A binary frame of one byte on a new session leaves a buffer of length 1, which is
  not a multiple of the sample width.
\<close>

theorem odd_frame_counterexample:
  "map_option (\<lambda>sess. length (audio_buffer sess))
     (clients (state_of (run_messages (\<lambda>t. None) (\<lambda>a r. Inl []) (\<lambda>n. True) 0 [Bytes [1]]
        \<lparr>clients = [0 \<mapsto> new_session], sent = [], dispatched = []\<rparr>)) 0) = Some 1"
  by (simp add: handle_message_def new_session_def)


theorem buffer_aligned_witness:
  "even (length [1, 2 :: byte]) \<and> even (length [3, 4 :: byte]) \<and>
   map_option (\<lambda>sess. even (length (audio_buffer sess)))
     (clients (state_of (run_messages (\<lambda>t. None) (\<lambda>a r. Inl []) (\<lambda>n. True) 0
        [Bytes [1, 2], Bytes [3, 4]]
        \<lparr>clients = [0 \<mapsto> new_session], sent = [], dispatched = []\<rparr>)) 0) = Some True \<and>
   map_option audio_buffer
     (clients (state_of (run_messages (\<lambda>t. None) (\<lambda>a r. Inl []) (\<lambda>n. True) 0
        [Bytes [1, 2], Bytes [3, 4]]
        \<lparr>clients = [0 \<mapsto> new_session], sent = [], dispatched = []\<rparr>)) 0) = Some [1, 2, 3, 4]"
proof -
  let ?run = "run_messages (\<lambda>t. None) (\<lambda>a r. Inl []) (\<lambda>n. True) 0
        [Bytes [1, 2], Bytes [3, 4]]
        \<lparr>clients = [0 \<mapsto> new_session], sent = [], dispatched = []\<rparr>"
  have frames: "\<forall>b. Bytes b \<in> set [Bytes [1, 2], Bytes [3, 4]] \<longrightarrow> even (length b)"
    by auto
  have start: "\<forall>k sess. clients \<lparr>clients = [0 \<mapsto> new_session], sent = [], dispatched = []\<rparr> k = Some sess \<longrightarrow>
      even (length (audio_buffer sess))"
    by (simp add: new_session_def)
  have buf: "map_option audio_buffer (clients (state_of ?run) 0) = Some [1, 2, 3, 4]"
    by (simp add: handle_message_def new_session_def)
  then obtain sess where sess: "clients (state_of ?run) 0 = Some sess"
    by blast
  with buffer_aligned [OF frames start, of "\<lambda>t. None" "\<lambda>a r. Inl []" "\<lambda>n. True" 0]
  have "even (length (audio_buffer sess))"
    by blast
  with sess buf show ?thesis by simp
qed

text \<open>
  C2, as the code has it. A text message that \<^verbatim>\<open>json.loads\<close> rejects raises
  \<^verbatim>\<open>JSONDecodeError\<close> in the loop. The message itself changes nothing (session entry,
  buffer and sample rate are as before), but the exception leaves the loop: the messages
  after it are not processed, the handler of \<^verbatim>\<open>process_audio\<close> logs the exception, and
  the session entry is deleted.
\<close>

theorem malformed_control_message:
  assumes "loads t = None"
  shows "handle_message loads generate can_send cid (Str t) s = Raise JSONDecodeError s \<and>
         run_messages loads generate can_send cid (Str t # rest) s = Raise JSONDecodeError s \<and>
         (run_messages loads generate can_send cid pre
              (init\<lparr>clients := (clients init)(cid \<mapsto> new_session)\<rparr>) = Continue s \<longrightarrow>
            process_audio loads generate can_send cid (pre @ Str t # rest) init =
              (Some JSONDecodeError, s\<lparr>clients := (clients s)(cid := None)\<rparr>))"
proof -
  have step: "handle_message loads generate can_send cid (Str t) s = Raise JSONDecodeError s"
    using assms by (simp add: handle_message_def)
  then have run: "run_messages loads generate can_send cid (Str t # rest) s = Raise JSONDecodeError s"
    by simp
  have "process_audio loads generate can_send cid (pre @ Str t # rest) init =
      (Some JSONDecodeError, s\<lparr>clients := (clients s)(cid := None)\<rparr>)"
    if "run_messages loads generate can_send cid pre
          (init\<lparr>clients := (clients init)(cid \<mapsto> new_session)\<rparr>) = Continue s"
    unfolding process_audio_def Let_def run_messages_append that step.case run prod.case
    by simp
  with step run show ?thesis by blast
qed

text \<open>
  C2. The malformed text \<open>{\<close> followed by a binary frame: the loop stops at the text with
  \<^verbatim>\<open>JSONDecodeError\<close>, the frame is never appended, and \<^verbatim>\<open>process_audio\<close> ends with the
  session removed from the map.
\<close>

theorem malformed_control_message_counterexample:
  "run_messages (\<lambda>t. None) (\<lambda>a r. Inl []) (\<lambda>n. True) 0 [Str ''{'', Bytes [1, 2]]
     \<lparr>clients = [0 \<mapsto> new_session], sent = [], dispatched = []\<rparr> =
     Raise JSONDecodeError \<lparr>clients = [0 \<mapsto> new_session], sent = [], dispatched = []\<rparr> \<and>
   process_audio (\<lambda>t. None) (\<lambda>a r. Inl []) (\<lambda>n. True) 0 [Str ''{'', Bytes [1, 2]]
     \<lparr>clients = Map.empty, sent = [], dispatched = []\<rparr> =
     (Some JSONDecodeError, \<lparr>clients = Map.empty, sent = [], dispatched = []\<rparr>)"
  by (simp add: process_audio_def handle_message_def)


theorem malformed_control_message_witness:
  "process_audio (\<lambda>t. None) (\<lambda>a r. Inl []) (\<lambda>n. True) 0
     ([Bytes [1, 2]] @ Str ''{'' # [Bytes [3, 4]])
     \<lparr>clients = Map.empty, sent = [], dispatched = []\<rparr> =
   (Some JSONDecodeError, \<lparr>clients = Map.empty, sent = [], dispatched = []\<rparr>)"
proof -
  let ?init = "\<lparr>clients = Map.empty, sent = [], dispatched = []\<rparr>"
  let ?s = "\<lparr>clients = [0 \<mapsto> \<lparr>audio_buffer = [1, 2], sample_rate = PInt 16000\<rparr>],
             sent = [], dispatched = []\<rparr>"
  have dec: "(\<lambda>t :: string. None :: pyval option) ''{'' = None" by simp
  have pre: "run_messages (\<lambda>t. None) (\<lambda>a r. Inl []) (\<lambda>n. True) 0 [Bytes [1, 2]]
      (?init\<lparr>clients := (clients ?init)(0 \<mapsto> new_session)\<rparr>) = Continue ?s"
    by (simp add: handle_message_def new_session_def)
  have "process_audio (\<lambda>t. None) (\<lambda>a r. Inl []) (\<lambda>n. True) 0
     ([Bytes [1, 2]] @ Str ''{'' # [Bytes [3, 4]]) ?init =
     (Some JSONDecodeError, ?s\<lparr>clients := (clients ?s)(0 := None)\<rparr>)"
    using malformed_control_message [where loads = "\<lambda>t. None" and t = "''{''"
        and generate = "\<lambda>a r. Inl []" and can_send = "\<lambda>n. True" and cid = 0 and s = ?s
        and rest = "[Bytes [3, 4]]" and pre = "[Bytes [1, 2]]" and init = ?init] pre
    by blast
  then show ?thesis by simp
qed


lemma handle_message_eof:
  assumes "loads t = Some (PDict kvs)" and "map_of kvs ''type'' = Some (PStr ''eof'')"
  shows "handle_message loads generate can_send cid (Str t) s = dispatch generate can_send cid s"
  using assms by (simp add: handle_message_def)

lemma handle_message_threshold:
  assumes "clients s cid = Some sess" and "length (audio_buffer sess @ b) > 32000"
  shows "handle_message loads generate can_send cid (Bytes b) s =
     dispatch generate can_send cid
       (s\<lparr>clients := (clients s)(cid \<mapsto> sess\<lparr>audio_buffer := audio_buffer sess @ b\<rparr>)\<rparr>)"
  using assms by (simp add: handle_message_def Let_def)

lemma handle_message_below:
  assumes "clients s cid = Some sess" and "length (audio_buffer sess @ b) \<le> 32000"
  shows "handle_message loads generate can_send cid (Bytes b) s =
     Continue (s\<lparr>clients := (clients s)(cid \<mapsto> sess\<lparr>audio_buffer := audio_buffer sess @ b\<rparr>)\<rparr>)"
  using assms by (simp add: handle_message_def Let_def)

text \<open>
  C5. When the recognizer raises and the result cannot be sent, \<^verbatim>\<open>websocket.send\<close> raises
  \<^verbatim>\<open>ConnectionClosed\<close> before the buffer is emptied: the dispatch ends with the buffer
  as it was, and \<^verbatim>\<open>process_audio\<close> ends with the session deleted.
\<close>

theorem recognizer_failure_counterexample:
  "dispatch (\<lambda>a r. Inl ''boom'') (\<lambda>n. False) 0
     \<lparr>clients = [0 \<mapsto> \<lparr>audio_buffer = [1, 2], sample_rate = PInt 16000\<rparr>],
      sent = [], dispatched = []\<rparr> =
     Raise ConnectionClosed
       \<lparr>clients = [0 \<mapsto> \<lparr>audio_buffer = [1, 2], sample_rate = PInt 16000\<rparr>],
        sent = [], dispatched = [[1, 2]]\<rparr> \<and>
   process_audio (\<lambda>t. if t = eof_message then Some (PDict [(''type'', PStr ''eof'')]) else None)
     (\<lambda>a r. Inl ''boom'') (\<lambda>n. False) 0 [Bytes [1, 2], Str eof_message]
     \<lparr>clients = Map.empty, sent = [], dispatched = []\<rparr> =
     (Some ConnectionClosed, \<lparr>clients = Map.empty, sent = [], dispatched = [[1, 2]]\<rparr>)"
  by (simp add: process_audio_def handle_message_def dispatch_def recognize_audio_def
      pcm_to_float_even new_session_def Let_def)

text \<open>
  C5, as the code has it. A dispatch of a non-empty buffer in which the recognizer is
  called (the samples were converted) and raises an exception with message \<open>msg\<close>, on a
  connection that can carry the result. \<^verbatim>\<open>recognize_audio\<close> returns the result with empty text, the message
  under \<open>error\<close> and no timestamps; the dispatch, whether reached by an eof message or by a
  frame that crosses the threshold, sends that result, keeps the session entry with its
  sample rate, and empties the buffer; and the next frame is accumulated into the empty
  buffer as usual.
\<close>

theorem recognizer_failure:
  assumes sess: "clients s cid = Some sess"
    and nonempty: "audio_buffer sess \<noteq> []"
    and conv: "pcm_to_float (audio_buffer sess) = Inr audio_np"
    and failure: "generate audio_np (sample_rate sess) = Inl msg"
    and send: "can_send (length (sent s))"
    and after: "after = s\<lparr>dispatched := dispatched s @ [audio_buffer sess],
                          sent := sent s @ [PDict [(''text'', PStr []), (''error'', PStr msg),
                                                   (''timestamps'', PList [])]],
                          clients := (clients s)(cid \<mapsto> sess\<lparr>audio_buffer := []\<rparr>)\<rparr>"
  shows "recognize_audio generate (clients s) cid =
           Inr (PDict [(''text'', PStr []), (''error'', PStr msg), (''timestamps'', PList [])]) \<and>
         dispatch generate can_send cid s = Continue after \<and>
         (\<forall>t kvs. loads t = Some (PDict kvs) \<and> map_of kvs ''type'' = Some (PStr ''eof'') \<longrightarrow>
            handle_message loads generate can_send cid (Str t) s = Continue after) \<and>
         (\<forall>before sess0 f. clients before cid = Some sess0 \<and> length (audio_buffer sess0 @ f) > 32000 \<and>
              sess = sess0\<lparr>audio_buffer := audio_buffer sess0 @ f\<rparr> \<and>
              s = before\<lparr>clients := (clients before)(cid \<mapsto> sess)\<rparr> \<longrightarrow>
            handle_message loads generate can_send cid (Bytes f) before = Continue after) \<and>
         (\<forall>b. length b \<le> 32000 \<longrightarrow>
            handle_message loads generate can_send cid (Bytes b) after =
              Continue (after\<lparr>clients := (clients after)(cid \<mapsto> sess\<lparr>audio_buffer := b\<rparr>)\<rparr>))"
proof -
  have rec: "recognize_audio generate (clients s) cid =
           Inr (PDict [(''text'', PStr []), (''error'', PStr msg), (''timestamps'', PList [])])"
    using sess nonempty conv failure by (simp add: recognize_audio_def error_result_def)
  have disp: "dispatch generate can_send cid s = Continue after"
    using sess rec send after by (simp add: dispatch_def Let_def)
  have eof: "handle_message loads generate can_send cid (Str t) s = Continue after"
    if "loads t = Some (PDict kvs)" "map_of kvs ''type'' = Some (PStr ''eof'')" for t kvs
    using handle_message_eof [of loads t kvs generate can_send cid s] that disp by simp
  have thr: "handle_message loads generate can_send cid (Bytes f) before = Continue after"
    if "clients before cid = Some sess0" "length (audio_buffer sess0 @ f) > 32000"
      "sess = sess0\<lparr>audio_buffer := audio_buffer sess0 @ f\<rparr>"
      "s = before\<lparr>clients := (clients before)(cid \<mapsto> sess)\<rparr>" for before sess0 f
    using handle_message_threshold [of before cid sess0 f loads generate can_send] that disp by simp
  have next_frame: "handle_message loads generate can_send cid (Bytes b) after =
        Continue (after\<lparr>clients := (clients after)(cid \<mapsto> sess\<lparr>audio_buffer := b\<rparr>)\<rparr>)"
    if "length b \<le> 32000" for b
  proof -
    have "clients after cid = Some (sess\<lparr>audio_buffer := []\<rparr>)"
      using after by simp
    from handle_message_below [of after cid "sess\<lparr>audio_buffer := []\<rparr>" b loads generate can_send] this that
    show ?thesis by simp
  qed
  from rec disp eof thr next_frame show ?thesis by blast
qed


theorem recognizer_failure_witness:
  "recognize_audio (\<lambda>a r. Inl ''boom'')
     [0 \<mapsto> \<lparr>audio_buffer = [1, 2], sample_rate = PInt 16000\<rparr>] 0 =
     Inr (PDict [(''text'', PStr []), (''error'', PStr ''boom''), (''timestamps'', PList [])]) \<and>
   dispatch (\<lambda>a r. Inl ''boom'') (\<lambda>n. True) 0
     \<lparr>clients = [0 \<mapsto> \<lparr>audio_buffer = [1, 2], sample_rate = PInt 16000\<rparr>],
      sent = [], dispatched = []\<rparr> =
     Continue
       \<lparr>clients = [0 \<mapsto> \<lparr>audio_buffer = [], sample_rate = PInt 16000\<rparr>],
        sent = [PDict [(''text'', PStr []), (''error'', PStr ''boom''), (''timestamps'', PList [])]],
        dispatched = [[1, 2]]\<rparr>"
proof -
  let ?sess = "\<lparr>audio_buffer = [1, 2], sample_rate = PInt 16000\<rparr>"
  let ?s = "\<lparr>clients = [0 \<mapsto> ?sess], sent = [], dispatched = []\<rparr>"
  have conv: "pcm_to_float (audio_buffer ?sess) = Inr (map to_float32 (int16_samples [1, 2]))"
    by (simp add: pcm_to_float_even)
  show ?thesis
    using recognizer_failure [where s = ?s and cid = 0 and sess = ?sess
        and audio_np = "map to_float32 (int16_samples [1, 2])"
        and generate = "\<lambda>a r. Inl ''boom''" and msg = "''boom''" and can_send = "\<lambda>n. True"
        and after = "?s\<lparr>dispatched := dispatched ?s @ [audio_buffer ?sess],
                          sent := sent ?s @ [PDict [(''text'', PStr []), (''error'', PStr ''boom''),
                                                   (''timestamps'', PList [])]],
                          clients := (clients ?s)(0 \<mapsto> ?sess\<lparr>audio_buffer := []\<rparr>)\<rparr>"] conv
    by simp
qed





end
